theory Spec2Isabelle
  imports Complex_Main "HOL-Library.Log_Nat"
begin

section \<open>Fast TZYX acquisition with a hardware-sequenced piezo stage\<close>

text \<open>
  A shallow embedding of the notebook
  \<^verbatim>\<open>docs/source/application_notebooks/TZYX_fast_sequencing_z_indexing.ipynb\<close>:
  the function \<^verbatim>\<open>upload_piezo_sequence\<close> and the top-level cells that set the
  parameters, upload the sequence, generate the events, acquire and reset.

  The cells are modelled twice. First with Python \<^verbatim>\<open>float\<close> values as exact rationals
  (\<^typ>\<open>rat\<close>), without rounding: for the notebook's own parameters (\<^verbatim>\<open>-2.5\<close>, \<^verbatim>\<open>2.5\<close>,
  \<^verbatim>\<open>0.25\<close>) every value that arises is a small multiple of \<^verbatim>\<open>1/4\<close>, which binary
  floating point represents and adds without rounding, so there the model and the
  program agree value by value. Then with the float operations left open, for what
  holds of every float input whatever the rounding. Python integers are \<^typ>\<open>int\<close>.
\<close>

subsection \<open>Errors\<close>

text \<open>
  The failures the notebook's own arithmetic and indexing can raise: a division by
  zero, in \<^verbatim>\<open>abs(mid_pos - start_end_pos) / step_size\<close>, in
  \<^verbatim>\<open>duration * framerate / num_z_positions\<close> and in the length computation of
  \<^verbatim>\<open>np.arange\<close> with a zero step; \<^verbatim>\<open>pos_sequence[0]\<close> on an empty sequence; and, where
  a float is infinite or not a number, \<^verbatim>\<open>int(x)\<close> and the length of \<^verbatim>\<open>np.arange\<close>.
  Faults of the hardware are the collaborators' and are not modelled.
\<close>

datatype error = ZeroDivisionError | IndexError | OverflowError | ValueError

definition truediv :: "rat \<Rightarrow> rat \<Rightarrow> error + rat" where
  \<comment> \<open>Python's \<^verbatim>\<open>a / b\<close>\<close>
  "truediv a b = (if b = 0 then Inl ZeroDivisionError else Inr (a / b))"

definition int_py :: "rat \<Rightarrow> int" where
  \<comment> \<open>Python's \<^verbatim>\<open>int(x)\<close> on a float: truncation towards zero\<close>
  "int_py x = (if 0 \<le> x then \<lfloor>x\<rfloor> else \<lceil>x\<rceil>)"

subsection \<open>List objects and references\<close>

text \<open>
  Python lists are mutable objects reached through references. The event cell copies
  \<^verbatim>\<open>z_idx\<close> and reverses the copy in place, so list objects live in an explicit heap:
  a reference is the index of its object, and a new object is appended.
\<close>

type_synonym ref = nat
type_synonym heap = "int list list"

definition list_new :: "heap \<Rightarrow> int list \<Rightarrow> ref \<times> heap" where
  \<comment> \<open>\<^verbatim>\<open>list(xs)\<close>: a new list object\<close>
  "list_new h xs = (length h, h @ [xs])"

definition list_copy :: "heap \<Rightarrow> ref \<Rightarrow> ref \<times> heap" where
  \<comment> \<open>\<^verbatim>\<open>r.copy()\<close>: a new list object with the same elements\<close>
  "list_copy h r = (length h, h @ [h ! r])"

definition list_reverse :: "heap \<Rightarrow> ref \<Rightarrow> heap" where
  \<comment> \<open>\<^verbatim>\<open>r.reverse()\<close>: reverses the object in place\<close>
  "list_reverse h r = h[r := rev (h ! r)]"

definition range_py :: "int \<Rightarrow> int list" where
  \<comment> \<open>\<^verbatim>\<open>range(n)\<close>: empty when \<^verbatim>\<open>n <= 0\<close>\<close>
  "range_py n = map int [0..<nat n]"

subsection \<open>Acquisition events\<close>

text \<open>An event is the dictionary \<^verbatim>\<open>{"axes": {"time": i, "z": j}}\<close>.\<close>

record axes =
  time :: int
  z :: int

record event =
  axes :: axes

text \<open>
  \<^verbatim>\<open>
  events = []
  z_idx_ = z_idx.copy()
  for i in range(num_time_points):
      for j in z_idx_:
          events.append({"axes": {"time": i, "z": j}})
      z_idx_.reverse()
  \<close>
  The inner loop appends one event per element of the working list; the outer loop
  runs it for each time point and then reverses the working list object.
\<close>

fun append_events :: "int \<Rightarrow> int list \<Rightarrow> event list \<Rightarrow> event list" where
  "append_events i [] events = events"
| "append_events i (j # js) events =
     append_events i js (events @ [\<lparr>axes = \<lparr>time = i, z = j\<rparr>\<rparr>])"

fun event_loop :: "int list \<Rightarrow> ref \<Rightarrow> heap \<Rightarrow> event list \<Rightarrow> event list \<times> heap" where
  "event_loop [] z_idx' h events = (events, h)"
| "event_loop (i # is) z_idx' h events =
     event_loop is z_idx' (list_reverse h z_idx') (append_events i (h ! z_idx') events)"

definition generate_events :: "int \<Rightarrow> ref \<Rightarrow> heap \<Rightarrow> event list \<times> ref \<times> heap" where
  \<comment> \<open>returns the events, the reference \<^verbatim>\<open>z_idx_\<close> and the heap after the loop\<close>
  "generate_events num_time_points z_idx h =
     (let (z_idx', h1) = list_copy h z_idx;
          (events, h2) = event_loop (range_py num_time_points) z_idx' h1 []
      in (events, z_idx', h2))"

subsection \<open>NumPy ranges\<close>

definition np_arange :: "rat \<Rightarrow> rat \<Rightarrow> rat \<Rightarrow> error + rat list" where
  \<comment> \<open>Modelled from the spec: \<^verbatim>\<open>np.arange(start, stop, step)\<close> is NumPy's, not the
      notebook's. It has the "standard floating-step range semantics" of section 4.1:
      \<^verbatim>\<open>ceil((stop - start) / step)\<close> values \<^verbatim>\<open>start + i * step\<close>, none when that
      count is not positive, and an error for a zero step.\<close>
  "np_arange start stop step =
     (case truediv (stop - start) step of
        Inl e \<Rightarrow> Inl e
      | Inr len \<Rightarrow> Inr (map (\<lambda>i. start + of_nat i * step) [0..<nat \<lceil>len\<rceil>]))"

definition np_hstack :: "'a list \<Rightarrow> 'a list \<Rightarrow> 'a list" where
  \<comment> \<open>\<^verbatim>\<open>np.hstack((a, b))\<close> of two one-dimensional arrays\<close>
  "np_hstack a b = a @ b"

subsection \<open>The hardware bridge\<close>

text \<open>
  The Micro-Manager core behind the bridge is a collaborator of the notebook. Its
  state is the part the notebook reads and writes: the name of the focus device, the
  position of each stage, the device properties, the sequence loaded into each stage,
  the camera exposure and region of interest; \<open>calls\<close> logs the calls made, in order.
  The type \<open>'f\<close> is the type of the floats: \<^typ>\<open>rat\<close> in the exact model.
\<close>

datatype prop_value = PStr string | PInt int

datatype 'f gcall =
    Get_focus_device
  | Get_position string
  | Set_position string 'f
  | Set_property string string prop_value
  | Load_stage_sequence string "'f list"
  | Set_exposure int
  | Set_roi int int int int

record 'f gcore =
  focus_device :: string
  position :: "string \<Rightarrow> 'f"
  property :: "string \<times> string \<Rightarrow> prop_value option"
  stage_sequence :: "string \<Rightarrow> 'f list"
  exposure :: "int option"
  roi :: "(int \<times> int \<times> int \<times> int) option"
  calls :: "'f gcall list"

type_synonym core_call = "rat gcall"
type_synonym core = "rat gcore"

definition get_focus_device :: "'f gcore \<Rightarrow> string \<times> 'f gcore" where
  \<comment> \<open>Modelled from the spec: the bridge's get-focus-device (section 6), whose code
      is not in the notebook.\<close>
  "get_focus_device mmc = (focus_device mmc, mmc\<lparr>calls := calls mmc @ [Get_focus_device]\<rparr>)"

definition get_position :: "'f gcore \<Rightarrow> string \<Rightarrow> 'f \<times> 'f gcore" where
  \<comment> \<open>Modelled from the spec: the bridge's get-position, "query stage focus position"
      (section 4.3), whose code is not in the notebook.\<close>
  "get_position mmc dev = (position mmc dev, mmc\<lparr>calls := calls mmc @ [Get_position dev]\<rparr>)"

definition set_position :: "'f gcore \<Rightarrow> string \<Rightarrow> 'f \<Rightarrow> 'f gcore" where
  \<comment> \<open>Modelled from the spec: the bridge's set-position, "set stage focus position"
      (section 4.3), whose code is not in the notebook.\<close>
  "set_position mmc dev p =
     mmc\<lparr>position := (position mmc)(dev := p), calls := calls mmc @ [Set_position dev p]\<rparr>"

definition set_property :: "'f gcore \<Rightarrow> string \<Rightarrow> string \<Rightarrow> prop_value \<Rightarrow> 'f gcore" where
  \<comment> \<open>Modelled from the spec: the bridge's set-property(name, value) (section 6), whose
      code is not in the notebook.\<close>
  "set_property mmc dev name v =
     mmc\<lparr>property := (property mmc)((dev, name) \<mapsto> v),
         calls := calls mmc @ [Set_property dev name v]\<rparr>"

definition load_stage_sequence :: "'f gcore \<Rightarrow> string \<Rightarrow> 'f list \<Rightarrow> 'f gcore" where
  \<comment> \<open>Modelled from the spec: the bridge's load-stage-sequence(positions), "upload a
      position array to stage firmware" (section 4.3), whose code is not in the notebook.\<close>
  "load_stage_sequence mmc dev ps =
     mmc\<lparr>stage_sequence := (stage_sequence mmc)(dev := ps),
         calls := calls mmc @ [Load_stage_sequence dev ps]\<rparr>"

definition set_exposure :: "'f gcore \<Rightarrow> int \<Rightarrow> 'f gcore" where
  \<comment> \<open>Modelled from the spec: the bridge's set-exposure (section 6), whose code is not
      in the notebook.\<close>
  "set_exposure mmc e = mmc\<lparr>exposure := Some e, calls := calls mmc @ [Set_exposure e]\<rparr>"

definition set_roi :: "'f gcore \<Rightarrow> int \<times> int \<times> int \<times> int \<Rightarrow> 'f gcore" where
  \<comment> \<open>Modelled from the spec: the bridge's set-ROI (section 6), whose code is not in
      the notebook.\<close>
  "set_roi mmc r =
     (case r of (x, y, w, h) \<Rightarrow>
        mmc\<lparr>roi := Some (x, y, w, h), calls := calls mmc @ [Set_roi x y w h]\<rparr>)"

fun add_all :: "'f list \<Rightarrow> 'f list \<Rightarrow> 'f list" where
  \<comment> \<open>\<^verbatim>\<open>for i in pos_sequence: positionJ.add(float(i))\<close> on a \<^verbatim>\<open>DoubleVector\<close>\<close>
  "add_all positionJ [] = positionJ"
| "add_all positionJ (i # is) = add_all (positionJ @ [i]) is"

subsection \<open>Uploading the triangle waveform\<close>

definition upload_piezo_sequence ::
  "core \<Rightarrow> rat \<Rightarrow> rat \<Rightarrow> rat \<Rightarrow> bool \<Rightarrow> error + (core \<times> rat \<times> rat list)" where
  \<comment> \<open>returns the core after the calls, \<^verbatim>\<open>z_pos\<close> and \<^verbatim>\<open>pos_sequence\<close>\<close>
  "upload_piezo_sequence mmc start_end_pos mid_pos step_size relative =
     (case get_focus_device mmc of (z_stage, mmc) \<Rightarrow>
      case np_arange start_end_pos (mid_pos + step_size) step_size of
        Inl e \<Rightarrow> Inl e
      | Inr up \<Rightarrow>
      case np_arange mid_pos (start_end_pos - step_size) (- step_size) of
        Inl e \<Rightarrow> Inl e
      | Inr down \<Rightarrow>
      let pos_sequence = np_hstack up down;
          z_pos = 0;
          (z_pos, pos_sequence, mmc) =
            (if relative
             then case get_position mmc z_stage of (p, mmc) \<Rightarrow>
                    (p, map (\<lambda>x. x + p) pos_sequence, mmc)
             else (z_pos, pos_sequence, mmc));
          positionJ = add_all [] pos_sequence;
          mmc = set_property mmc z_stage ''UseSequence'' (PStr ''Yes'');
          mmc = set_property mmc z_stage ''UseFastSequence'' (PStr ''No'');
          mmc = load_stage_sequence mmc z_stage positionJ;
          mmc = set_property mmc z_stage ''UseFastSequence'' (PStr ''Armed'')
      in Inr (mmc, z_pos, pos_sequence))"

subsection \<open>The float operations left open\<close>

text \<open>
  The definitions above compute with exact rationals, and say what the program does
  where its float operations are exact. The definitions below follow the same source
  lines with the float operations left open: \<open>'f\<close> is the type of the floats, and a
  record of type \<open>'f arith\<close> gives the operations the notebook uses on them:
  \<^item> \<open>fadd\<close>, \<open>fsub\<close>, \<open>fneg\<close>, \<open>fabs\<close>: \<^verbatim>\<open>x + y\<close>, \<^verbatim>\<open>x - y\<close>, \<^verbatim>\<open>-x\<close>, \<^verbatim>\<open>abs(x)\<close>;
  \<^item> \<open>fdiv\<close>: \<^verbatim>\<open>x / y\<close>, which may raise;
  \<^item> \<open>float_of_int\<close>: the float of a Python integer, as in \<^verbatim>\<open>q + 1\<close>;
  \<^item> \<open>int_of_float\<close>: \<^verbatim>\<open>int(x)\<close>, which may raise;
  \<^item> \<open>arange_len\<close>: the number of values of \<^verbatim>\<open>np.arange(start, stop, step)\<close>, or the
    error it raises;
  \<^item> \<open>arange_val\<close>: the value of \<^verbatim>\<open>np.arange(start, stop, step)\<close> at an index \<open>i > 0\<close>;
  \<^item> \<open>ceil_div\<close>: \<^verbatim>\<open>np.ceil(a / b).astype(np.int)\<close> for Python integers \<open>a\<close>, \<open>b\<close>.

  What is proved of these definitions for every such record holds of the program with
  IEEE doubles, whatever the rounding.
\<close>

record 'f arith =
  fadd :: "'f \<Rightarrow> 'f \<Rightarrow> 'f"
  fsub :: "'f \<Rightarrow> 'f \<Rightarrow> 'f"
  fneg :: "'f \<Rightarrow> 'f"
  fabs :: "'f \<Rightarrow> 'f"
  fdiv :: "'f \<Rightarrow> 'f \<Rightarrow> error + 'f"
  float_of_int :: "int \<Rightarrow> 'f"
  int_of_float :: "'f \<Rightarrow> error + int"
  arange_len :: "'f \<Rightarrow> 'f \<Rightarrow> 'f \<Rightarrow> error + nat"
  arange_val :: "'f \<Rightarrow> 'f \<Rightarrow> nat \<Rightarrow> 'f"
  ceil_div :: "int \<Rightarrow> int \<Rightarrow> error + int"

definition np_arange_with :: "'f arith \<Rightarrow> 'f \<Rightarrow> 'f \<Rightarrow> 'f \<Rightarrow> error + 'f list" where
  \<comment> \<open>Modelled from the spec: \<^verbatim>\<open>np.arange(start, stop, step)\<close> is NumPy's, not the
      notebook's. It has the "standard floating-step range semantics" of section 4.1:
      it raises or returns a number of values, of which the first is \<^verbatim>\<open>start\<close> itself.\<close>
  "np_arange_with A start stop step =
     (case arange_len A start stop step of
        Inl e \<Rightarrow> Inl e
      | Inr n \<Rightarrow> Inr (map (\<lambda>i. if i = 0 then start else arange_val A start step i) [0..<n]))"

definition upload_piezo_sequence_with ::
  "'f arith \<Rightarrow> 'f gcore \<Rightarrow> 'f \<Rightarrow> 'f \<Rightarrow> 'f \<Rightarrow> bool \<Rightarrow> error + ('f gcore \<times> 'f \<times> 'f list)" where
  \<comment> \<open>\<^verbatim>\<open>z_pos = 0\<close> is the float of the integer 0\<close>
  "upload_piezo_sequence_with A mmc start_end_pos mid_pos step_size relative =
     (case get_focus_device mmc of (z_stage, mmc) \<Rightarrow>
      case np_arange_with A start_end_pos (fadd A mid_pos step_size) step_size of
        Inl e \<Rightarrow> Inl e
      | Inr up \<Rightarrow>
      case np_arange_with A mid_pos (fsub A start_end_pos step_size) (fneg A step_size) of
        Inl e \<Rightarrow> Inl e
      | Inr down \<Rightarrow>
      let pos_sequence = np_hstack up down;
          z_pos = float_of_int A 0;
          (z_pos, pos_sequence, mmc) =
            (if relative
             then case get_position mmc z_stage of (p, mmc) \<Rightarrow>
                    (p, map (\<lambda>x. fadd A x p) pos_sequence, mmc)
             else (z_pos, pos_sequence, mmc));
          positionJ = add_all [] pos_sequence;
          mmc = set_property mmc z_stage ''UseSequence'' (PStr ''Yes'');
          mmc = set_property mmc z_stage ''UseFastSequence'' (PStr ''No'');
          mmc = load_stage_sequence mmc z_stage positionJ;
          mmc = set_property mmc z_stage ''UseFastSequence'' (PStr ''Armed'')
      in Inr (mmc, z_pos, pos_sequence))"

definition initial_num_z_positions_with :: "'f arith \<Rightarrow> 'f \<Rightarrow> 'f \<Rightarrow> 'f \<Rightarrow> error + int" where
  \<comment> \<open>\<^verbatim>\<open>num_z_positions = int(abs(mid_pos - start_end_pos) / step_size + 1)\<close>\<close>
  "initial_num_z_positions_with A start_end_pos mid_pos step_size =
     (case fdiv A (fabs A (fsub A mid_pos start_end_pos)) step_size of
        Inl e \<Rightarrow> Inl e
      | Inr q \<Rightarrow> int_of_float A (fadd A q (float_of_int A 1)))"

subsection \<open>The notebook's cells\<close>

definition initial_num_z_positions :: "rat \<Rightarrow> rat \<Rightarrow> rat \<Rightarrow> error + int" where
  \<comment> \<open>\<^verbatim>\<open>num_z_positions = int(abs(mid_pos - start_end_pos) / step_size + 1)\<close>, the
      first assignment, in the parameter cell\<close>
  "initial_num_z_positions start_end_pos mid_pos step_size =
     (case truediv \<bar>mid_pos - start_end_pos\<bar> step_size of
        Inl e \<Rightarrow> Inl e
      | Inr q \<Rightarrow> Inr (int_py (q + 1)))"

record 'f gparams =
  start_end_pos :: 'f
  mid_pos :: 'f
  step_size :: 'f
  relative :: bool
  duration :: int
  exposure_time :: int
  framerate :: int
  ROI :: "int \<times> int \<times> int \<times> int"

type_synonym params = "rat gparams"

text \<open>The variables of the notebook after its last cell.\<close>

record 'f gvars =
  nb_num_z_positions :: int
  nb_z_idx :: ref
  nb_num_time_points :: int
  nb_z_pos :: 'f
  nb_pos_sequence :: "'f list"
  nb_events :: "event list"
  nb_z_idx' :: ref
  nb_heap :: heap
  nb_mmc :: "'f gcore"

type_synonym vars = "rat gvars"

definition first_pos :: "'f list \<Rightarrow> error + 'f" where
  \<comment> \<open>\<^verbatim>\<open>pos_sequence[0]\<close>\<close>
  "first_pos ps = (case ps of [] \<Rightarrow> Inl IndexError | p # _ \<Rightarrow> Inr p)"

text \<open>
  The cells in order: parameters, camera and stage set-up with the upload, event
  generation, acquisition, reset. The acquisition engine is a collaborator: its effect
  on the core is the parameter \<open>acquire\<close>. \<^verbatim>\<open>num_z_positions\<close> is assigned twice, before
  \<^verbatim>\<open>z_idx\<close> and \<^verbatim>\<open>num_time_points\<close> are computed from it and again after the upload.
  \<^verbatim>\<open>np.ceil(x).astype(np.int)\<close> is the ceiling of \<open>x\<close> as an integer. The data set's
  \<^verbatim>\<open>path\<close> and \<^verbatim>\<open>name\<close>, \<^verbatim>\<open>bridge.get_studio()\<close> and the closing \<^verbatim>\<open>bridge.close()\<close> touch
  nothing the model keeps and are left out.
\<close>

definition notebook :: "(event list \<Rightarrow> core \<Rightarrow> core) \<Rightarrow> params \<Rightarrow> core \<Rightarrow> error + vars" where
  "notebook acquire p mmc =
     (case initial_num_z_positions (start_end_pos p) (mid_pos p) (step_size p) of
        Inl e \<Rightarrow> Inl e
      | Inr num_z_positions \<Rightarrow>
      let (z_idx, h) = list_new [] (range_py num_z_positions) in
      case truediv (of_int (duration p * framerate p)) (of_int num_z_positions) of
        Inl e \<Rightarrow> Inl e
      | Inr r \<Rightarrow>
      let num_time_points = \<lceil>r\<rceil>;
          mmc = set_exposure mmc (exposure_time p);
          mmc = set_roi mmc (ROI p);
          mmc = set_property mmc ''Camera'' ''Framerate'' (PInt (framerate p));
          (z_stage, mmc) = get_focus_device mmc
      in
      case upload_piezo_sequence mmc (start_end_pos p) (mid_pos p) (step_size p) (relative p) of
        Inl e \<Rightarrow> Inl e
      | Inr (mmc, z_pos, pos_sequence) \<Rightarrow>
      let num_z_positions = int (length pos_sequence) in
      case first_pos pos_sequence of
        Inl e \<Rightarrow> Inl e
      | Inr p0 \<Rightarrow>
      let mmc = set_position mmc z_stage p0;
          (events, z_idx', h) = generate_events num_time_points z_idx h;
          mmc = acquire events mmc;
          mmc = set_property mmc z_stage ''UseFastSequence'' (PStr ''No'');
          mmc = set_property mmc z_stage ''UseSequence'' (PStr ''No'');
          mmc = set_position mmc z_stage z_pos
      in Inr \<lparr>nb_num_z_positions = num_z_positions, nb_z_idx = z_idx,
               nb_num_time_points = num_time_points, nb_z_pos = z_pos,
               nb_pos_sequence = pos_sequence, nb_events = events, nb_z_idx' = z_idx',
               nb_heap = h, nb_mmc = mmc\<rparr>)"

definition sequence_of :: "error + ('f gcore \<times> 'f \<times> 'f list) \<Rightarrow> 'f list" where
  \<comment> \<open>the \<^verbatim>\<open>pos_sequence\<close> a call of \<^verbatim>\<open>upload_piezo_sequence\<close> returned\<close>
  "sequence_of r = (case r of Inl e \<Rightarrow> [] | Inr (mmc, z_pos, pos_sequence) \<Rightarrow> pos_sequence)"

definition z_indices :: "'f gvars \<Rightarrow> int list" where
  \<comment> \<open>the list object the variable \<^verbatim>\<open>z_idx\<close> refers to\<close>
  "z_indices v = nb_heap v ! nb_z_idx v"

subsection \<open>The notebook's own run\<close>

text \<open>
  The parameter cell of the notebook, a core whose focus stage \<^verbatim>\<open>Z\<close> stands at 7, and
  an acquisition engine that leaves the core as it is.
\<close>

definition notebook_params :: params where
  "notebook_params =
     \<lparr>start_end_pos = - (5 / 2), mid_pos = 5 / 2, step_size = 1 / 4, relative = True,
      duration = 2, exposure_time = 3, framerate = 200, ROI = (924, 770, 616, 514)\<rparr>"

definition idle_core :: core where
  "idle_core =
     \<lparr>focus_device = ''Z'', position = (\<lambda>dev. 7), property = Map.empty,
      stage_sequence = (\<lambda>dev. []), exposure = None, roi = None, calls = []\<rparr>"

definition acquire_idle :: "event list \<Rightarrow> core \<Rightarrow> core" where
  "acquire_idle es c = c"

definition notebook_run :: "error + vars" where
  "notebook_run = notebook acquire_idle notebook_params idle_core"

text \<open>The cells in order, over the open arithmetic.\<close>

definition notebook_with ::
  "'f arith \<Rightarrow> (event list \<Rightarrow> 'f gcore \<Rightarrow> 'f gcore) \<Rightarrow> 'f gparams \<Rightarrow> 'f gcore \<Rightarrow> error + 'f gvars" where
  "notebook_with A acquire p mmc =
     (case initial_num_z_positions_with A (start_end_pos p) (mid_pos p) (step_size p) of
        Inl e \<Rightarrow> Inl e
      | Inr num_z_positions \<Rightarrow>
      let (z_idx, h) = list_new [] (range_py num_z_positions) in
      case ceil_div A (duration p * framerate p) num_z_positions of
        Inl e \<Rightarrow> Inl e
      | Inr num_time_points \<Rightarrow>
      let mmc = set_exposure mmc (exposure_time p);
          mmc = set_roi mmc (ROI p);
          mmc = set_property mmc ''Camera'' ''Framerate'' (PInt (framerate p));
          (z_stage, mmc) = get_focus_device mmc
      in
      case upload_piezo_sequence_with A mmc (start_end_pos p) (mid_pos p) (step_size p)
             (relative p) of
        Inl e \<Rightarrow> Inl e
      | Inr (mmc, z_pos, pos_sequence) \<Rightarrow>
      let num_z_positions = int (length pos_sequence) in
      case first_pos pos_sequence of
        Inl e \<Rightarrow> Inl e
      | Inr p0 \<Rightarrow>
      let mmc = set_position mmc z_stage p0;
          (events, z_idx', h) = generate_events num_time_points z_idx h;
          mmc = acquire events mmc;
          mmc = set_property mmc z_stage ''UseFastSequence'' (PStr ''No'');
          mmc = set_property mmc z_stage ''UseSequence'' (PStr ''No'');
          mmc = set_position mmc z_stage z_pos
      in Inr \<lparr>nb_num_z_positions = num_z_positions, nb_z_idx = z_idx,
               nb_num_time_points = num_time_points, nb_z_pos = z_pos,
               nb_pos_sequence = pos_sequence, nb_events = events, nb_z_idx' = z_idx',
               nb_heap = h, nb_mmc = mmc\<rparr>)"

text \<open>The exact arithmetic of the first model is one such record.\<close>

definition exact :: "rat arith" where
  "exact =
     \<lparr>fadd = (\<lambda>x y. x + y), fsub = (\<lambda>x y. x - y), fneg = (\<lambda>x. - x), fabs = (\<lambda>x. \<bar>x\<bar>),
      fdiv = truediv, float_of_int = of_int, int_of_float = (\<lambda>x. Inr (int_py x)),
      arange_len =
        (\<lambda>start stop step.
           case truediv (stop - start) step of Inl e \<Rightarrow> Inl e | Inr len \<Rightarrow> Inr (nat \<lceil>len\<rceil>)),
      arange_val = (\<lambda>start step i. start + of_nat i * step),
      ceil_div =
        (\<lambda>a b. case truediv (of_int a) (of_int b) of Inl e \<Rightarrow> Inl e | Inr r \<Rightarrow> Inr \<lceil>r\<rceil>)\<rparr>"

subsection \<open>Binary floating point\<close>

text \<open>
  The finite IEEE doubles, as the rationals they denote. \<open>rnd x\<close> is the double nearest
  to \<open>x\<close>, ties to the even significand: 53 bits, spaced \<open>2^(e - 52)\<close> apart where
  \<open>2^e \<le> |x| < 2^(e + 1)\<close>, and \<open>2^(-1074)\<close> apart below \<open>2^(-1022)\<close>. Results beyond the
  largest double, infinities and NaN are not modelled: \<open>binary64\<close> is used only far from
  them. \<^verbatim>\<open>np.arange\<close> computes its length as \<^verbatim>\<open>ceil((stop - start) / step)\<close>, its second
  value as \<^verbatim>\<open>start + step\<close> and value \<open>i\<close> as \<^verbatim>\<open>start + i * delta\<close>, where \<^verbatim>\<open>delta\<close> is the
  second value less the first, every operation rounded.
\<close>

definition pow2 :: "int \<Rightarrow> rat" where
  "pow2 k = (if 0 \<le> k then 2 ^ nat k else 1 / 2 ^ nat (- k))"

definition ilog2 :: "rat \<Rightarrow> int" where
  \<comment> \<open>for \<open>x > 0\<close>, the \<open>e\<close> with \<open>2^e \<le> x < 2^(e + 1)\<close>\<close>
  "ilog2 x =
     (case quotient_of x of (p, q) \<Rightarrow>
        let k = bitlen p - bitlen q in if pow2 k \<le> x then k else k - 1)"

definition round_even :: "rat \<Rightarrow> int" where
  "round_even y =
     (let f = \<lfloor>y\<rfloor>; r = y - of_int f
      in if r < 1 / 2 then f else if 1 / 2 < r then f + 1 else if even f then f else f + 1)"

definition rnd :: "rat \<Rightarrow> rat" where
  "rnd x =
     (if x = 0 then 0
      else let e = max (ilog2 \<bar>x\<bar>) (- 1022); u = pow2 (e - 52)
           in of_int (round_even (x / u)) * u)"

definition binary64 :: "rat arith" where
  "binary64 =
     \<lparr>fadd = (\<lambda>x y. rnd (x + y)), fsub = (\<lambda>x y. rnd (x - y)), fneg = (\<lambda>x. - x),
      fabs = (\<lambda>x. \<bar>x\<bar>),
      fdiv = (\<lambda>x y. if y = 0 then Inl ZeroDivisionError else Inr (rnd (x / y))),
      float_of_int = (\<lambda>i. rnd (of_int i)), int_of_float = (\<lambda>x. Inr (int_py x)),
      arange_len =
        (\<lambda>start stop step.
           if step = 0 then Inl ZeroDivisionError
           else Inr (nat \<lceil>rnd (rnd (stop - start) / step)\<rceil>)),
      arange_val =
        (\<lambda>start step i.
           if i = 1 then rnd (start + step)
           else rnd (start + rnd (rnd (of_nat i) * rnd (rnd (start + step) - start)))),
      ceil_div =
        (\<lambda>a b. if b = 0 then Inl ZeroDivisionError
                else Inr \<lceil>rnd (of_int a / of_int b)\<rceil>)\<rparr>"

subsection \<open>The event loop in closed form\<close>

text \<open>
  What the two loops append, as a function of the time points still to run and the
  current order of the working list.
\<close>

fun sweeps :: "int list \<Rightarrow> int list \<Rightarrow> event list" where
  "sweeps [] js = []"
| "sweeps (i # is) js = map (\<lambda>j. \<lparr>axes = \<lparr>time = i, z = j\<rparr>\<rparr>) js @ sweeps is (rev js)"

text \<open>
  Two consecutive events \<open>a\<close>, \<open>b\<close> of a back-and-forth traversal: within a time point
  the z coordinate moves by exactly one; from one time point to the next it stays.
\<close>

definition neighbours :: "event \<Rightarrow> event \<Rightarrow> bool" where
  "neighbours a b =
     (\<bar>z (axes b) - z (axes a)\<bar> \<le> 1 \<and>
      (if time (axes b) = time (axes a)
       then \<bar>z (axes b) - z (axes a)\<bar> = 1
       else time (axes b) = time (axes a) + 1 \<and> z (axes b) = z (axes a)))"

subsection \<open>The upload in closed form\<close>

text \<open>
  \<open>ramp a step n\<close> is a run of \<open>n\<close> values from \<open>a\<close> in steps of \<open>step\<close>; \<open>triangle\<close> is
  the \<^verbatim>\<open>hstack\<close> of the two runs of \<^verbatim>\<open>upload_piezo_sequence\<close>; \<open>sequenced\<close> is the core
  after the four calls that send a sequence to the stage; \<open>outcome\<close> is what a call
  hands back to its caller, the pair it returns or the error it raises.
\<close>

definition ramp :: "rat \<Rightarrow> rat \<Rightarrow> nat \<Rightarrow> rat list" where
  "ramp a step n = map (\<lambda>i. a + of_nat i * step) [0..<n]"

definition triangle :: "rat \<Rightarrow> rat \<Rightarrow> rat \<Rightarrow> rat list" where
  "triangle s m st =
     ramp s st (nat \<lceil>(m + st - s) / st\<rceil>) @ ramp m (- st) (nat \<lceil>(s - st - m) / (- st)\<rceil>)"

definition sequenced :: "'f gcore \<Rightarrow> string \<Rightarrow> 'f list \<Rightarrow> 'f gcore" where
  "sequenced c dev ps =
     set_property
       (load_stage_sequence
          (set_property (set_property c dev ''UseSequence'' (PStr ''Yes''))
             dev ''UseFastSequence'' (PStr ''No''))
          dev ps)
       dev ''UseFastSequence'' (PStr ''Armed'')"

definition outcome :: "error + (core \<times> rat \<times> rat list) \<Rightarrow> error + (rat \<times> rat list)" where
  "outcome r =
     (case r of Inl e \<Rightarrow> Inl e | Inr (mmc, z_pos, pos_sequence) \<Rightarrow> Inr (z_pos, pos_sequence))"

section \<open>The event loop\<close>

subsection \<open>Closed form\<close>

lemma append_events_eq:
  "append_events i js es = es @ map (\<lambda>j. \<lparr>axes = \<lparr>time = i, z = j\<rparr>\<rparr>) js"
  by (induction js arbitrary: es) simp_all

lemma event_loop_eq:
  "r < length h \<Longrightarrow>
   event_loop ts r h es =
     (es @ sweeps ts (h ! r), h[r := (if even (length ts) then h ! r else rev (h ! r))])"
proof (induction ts arbitrary: h es)
  case Nil
  then show ?case by simp
next
  case (Cons i ts)
  have "r < length (list_reverse h r)" using Cons.prems by (simp add: list_reverse_def)
  from Cons.IH [OF this] Cons.prems show ?case
    by (simp add: append_events_eq list_reverse_def)
qed

lemma generate_events_eq:
  "r < length h \<Longrightarrow>
   generate_events n r h =
     (sweeps (range_py n) (h ! r), length h,
      h @ [if even (nat n) then h ! r else rev (h ! r)])"
  by (simp add: generate_events_def list_copy_def event_loop_eq range_py_def nth_append)

lemma even_nat: "even n \<Longrightarrow> even (nat n)"
  by (cases "0 \<le> n") (simp_all add: even_nat_iff)

lemma length_sweeps: "length (sweeps ts js) = length ts * length js"
  by (induction ts arbitrary: js) simp_all

lemma hd_sweeps:
  "ts \<noteq> [] \<Longrightarrow> js \<noteq> [] \<Longrightarrow> hd (sweeps ts js) = \<lparr>axes = \<lparr>time = hd ts, z = hd js\<rparr>\<rparr>"
  by (cases ts) (simp_all add: hd_map)

lemma sweeps_Nil_iff: "sweeps ts js = [] \<longleftrightarrow> ts = [] \<or> js = []"
  by (induction ts arbitrary: js) auto

subsection \<open>Three time points over three planes\<close>

text \<open>
  Claim C4. For \<^verbatim>\<open>num_time_points = 3\<close> and \<^verbatim>\<open>z_idx = [0, 1, 2]\<close> the generator produces
  exactly nine events, with (time, z) coordinates in the order (0,0), (0,1), (0,2),
  (1,2), (1,1), (1,0), (2,0), (2,1), (2,2): the z direction alternates per time point.
\<close>

theorem events_three_by_three:
  "fst (generate_events 3 0 [[0, 1, 2]]) =
     [\<lparr>axes = \<lparr>time = 0, z = 0\<rparr>\<rparr>, \<lparr>axes = \<lparr>time = 0, z = 1\<rparr>\<rparr>, \<lparr>axes = \<lparr>time = 0, z = 2\<rparr>\<rparr>,
      \<lparr>axes = \<lparr>time = 1, z = 2\<rparr>\<rparr>, \<lparr>axes = \<lparr>time = 1, z = 1\<rparr>\<rparr>, \<lparr>axes = \<lparr>time = 1, z = 0\<rparr>\<rparr>,
      \<lparr>axes = \<lparr>time = 2, z = 0\<rparr>\<rparr>, \<lparr>axes = \<lparr>time = 2, z = 1\<rparr>\<rparr>, \<lparr>axes = \<lparr>time = 2, z = 2\<rparr>\<rparr>]"
  by (simp add: generate_events_def list_copy_def list_reverse_def range_py_def upt_rec)

subsection \<open>Number of events\<close>

text \<open>
  Claim C5. For every \<^verbatim>\<open>num_time_points >= 0\<close> and every z-index list, the event list
  has \<^verbatim>\<open>num_time_points * len(z_idx)\<close> elements. The list is the object \<open>h ! r\<close> that the
  variable \<^verbatim>\<open>z_idx\<close> refers to.
\<close>

theorem events_length:
  "0 \<le> n \<Longrightarrow> r < length h \<Longrightarrow>
   int (length (fst (generate_events n r h))) = n * int (length (h ! r))"
  by (simp add: generate_events_eq length_sweeps range_py_def)

theorem events_length_witness:
  "(0::int) \<le> 3 \<and> (0::nat) < length [[0, 1, 2 :: int]] \<and>
   int (length (fst (generate_events 3 0 [[0, 1, 2]]))) = 3 * int (length ([[0, 1, 2 :: int]] ! 0))"
  using events_length [of 3 0 "[[0, 1, 2]]"] by simp

subsection \<open>Reversing twice\<close>

text \<open>
  Claim C7. Reversing any list object twice (the object \<open>q\<close> of any heap \<open>g\<close>) restores
  it, and after an even number of time points the working list \<^verbatim>\<open>z_idx_\<close> (the object
  \<open>h' ! r'\<close>) has the order of the original \<^verbatim>\<open>z_idx\<close> (the object \<open>h ! r\<close>).
\<close>

theorem reverse_twice:
  assumes "even n" and "r < length h" and "generate_events n r h = (es, r', h')"
  shows "list_reverse (list_reverse g q) q = g \<and> h' ! r' = h ! r"
proof
  show "list_reverse (list_reverse g q) q = g"
    by (cases "q < length g") (simp_all add: list_reverse_def list_update_beyond)
  show "h' ! r' = h ! r"
    using assms even_nat [of n] by (auto simp: generate_events_eq)
qed

theorem reverse_twice_witness:
  "even (2::int) \<and> (0::nat) < length [[0, 1, 2 :: int]] \<and>
   generate_events 2 0 [[0, 1, 2]] = (sweeps [0, 1] [0, 1, 2], 1, [[0, 1, 2], [0, 1, 2]]) \<and>
   list_reverse (list_reverse [[0, 1, 2], [3, 4]] 1) 1 = [[0, 1, 2], [3, 4]] \<and>
   [[0, 1, 2], [0, 1, 2 :: int]] ! 1 = [[0, 1, 2]] ! 0"
proof -
  have g: "generate_events 2 0 [[0, 1, 2]] = (sweeps [0, 1] [0, 1, 2], 1, [[0, 1, 2], [0, 1, 2]])"
    by (simp add: generate_events_def list_copy_def list_reverse_def range_py_def upt_rec)
  show ?thesis using reverse_twice [OF _ _ g, of "[[0, 1, 2], [3, 4]]" 1] g by simp
qed

subsection \<open>The original list is left alone\<close>

text \<open>
  Claim C9. The loop reverses a copy: the working reference \<open>r'\<close> is not \<open>r\<close>, and after
  the loop, for any number of time points (odd ones too), the object of \<^verbatim>\<open>z_idx\<close> and
  every other list object that existed before are unchanged.
\<close>

theorem copy_untouched:
  assumes "r < length h" and "generate_events n r h = (es, r', h')"
  shows "r' \<noteq> r \<and> h' ! r = h ! r \<and> take (length h) h' = h"
  using assms by (auto simp: generate_events_eq nth_append)

theorem copy_untouched_witness:
  "(0::nat) < length [[0, 1, 2 :: int]] \<and>
   generate_events 1 0 [[0, 1, 2]] = (sweeps [0] [0, 1, 2], 1, [[0, 1, 2], [2, 1, 0]]) \<and>
   (1::nat) \<noteq> 0 \<and> [[0, 1, 2], [2, 1, 0 :: int]] ! 0 = [[0, 1, 2]] ! 0 \<and>
   take (length [[0, 1, 2 :: int]]) [[0, 1, 2], [2, 1, 0]] = [[0, 1, 2 :: int]]"
proof -
  have g: "generate_events 1 0 [[0, 1, 2]] = (sweeps [0] [0, 1, 2], 1, [[0, 1, 2], [2, 1, 0]])"
    by (simp add: generate_events_def list_copy_def list_reverse_def range_py_def)
  show ?thesis using copy_untouched [OF _ g] g by simp
qed

subsection \<open>No jump back to the start\<close>

lemma successively_sweeps:
  assumes "js \<noteq> []" and "successively (\<lambda>a b. \<bar>b - a\<bar> = (1::int)) js"
  shows "successively neighbours (sweeps (map int [k..<k + m]) js)"
  using assms
proof (induction m arbitrary: k js)
  case 0
  then show ?case by simp
next
  case (Suc m)
  let ?mk = "\<lambda>j. \<lparr>axes = \<lparr>time = int k, z = j\<rparr>\<rparr>"
  have up: "[k..<k + Suc m] = k # [Suc k..<Suc k + m]"
    by (simp add: upt_rec)
  have rv: "successively (\<lambda>a b. \<bar>b - a\<bar> = (1::int)) (rev js)"
    using Suc.prems(2) by (simp add: abs_minus_commute)
  have tl: "successively neighbours (sweeps (map int [Suc k..<Suc k + m]) (rev js))"
    using Suc.IH [of "rev js" "Suc k"] Suc.prems(1) rv by simp
  have hdp: "successively neighbours (map ?mk js)"
    unfolding successively_map
    by (rule successively_mono [OF Suc.prems(2)]) (simp add: neighbours_def)
  have join: "m = 0 \<or>
      neighbours (last (map ?mk js)) (hd (sweeps (map int [Suc k..<Suc k + m]) (rev js)))"
  proof (cases m)
    case 0
    then show ?thesis by simp
  next
    case (Suc m')
    then have "map int [Suc k..<Suc k + m] \<noteq> []" by simp
    then have "hd (sweeps (map int [Suc k..<Suc k + m]) (rev js)) =
        \<lparr>axes = \<lparr>time = int (Suc k), z = last js\<rparr>\<rparr>"
      using Suc.prems(1) Suc by (simp add: hd_sweeps hd_rev hd_map upt_rec)
    then show ?thesis
      using Suc.prems(1) by (simp add: last_map neighbours_def)
  qed
  show ?case
    unfolding up using tl hdp join Suc.prems(1)
    by (auto simp: successively_append_iff sweeps_Nil_iff)
qed

lemma successively_range_py: "successively (\<lambda>a b. \<bar>b - a\<bar> = (1::int)) (range_py n)"
  by (simp add: successively_conv_nth range_py_def)

text \<open>
  Claim C8. When \<^verbatim>\<open>z_idx\<close> is \<^verbatim>\<open>[0, ..., n-1]\<close> with \<open>n \<ge> 1\<close>, any two consecutive events
  (at positions \<open>k\<close> and \<open>k + 1\<close> of the event list) are \<^const>\<open>neighbours\<close>: their z
  coordinates differ by at most 1, by exactly 1 within a time point, and not at all from
  the last event of a time point to the first event of the next.
\<close>

theorem boustrophedon:
  assumes "1 \<le> n" and "r < length h" and "h ! r = range_py n"
    and "Suc k < length (fst (generate_events t r h))"
  shows "neighbours (fst (generate_events t r h) ! k) (fst (generate_events t r h) ! Suc k)"
proof -
  have ne: "range_py n \<noteq> []" using assms(1) by (simp add: range_py_def)
  have "successively neighbours (sweeps (map int [0..<0 + nat t]) (range_py n))"
    by (rule successively_sweeps [OF ne successively_range_py])
  then have "successively neighbours (fst (generate_events t r h))"
    using assms(2,3) by (simp add: generate_events_eq range_py_def)
  then show ?thesis using assms(4) by (rule successively_nth)
qed

theorem boustrophedon_witness:
  "(1::int) \<le> 3 \<and> (0::nat) < length [[0, 1, 2 :: int]] \<and> [[0, 1, 2]] ! 0 = range_py 3 \<and>
   Suc 2 < length (fst (generate_events 2 0 [[0, 1, 2]])) \<and>
   neighbours \<lparr>axes = \<lparr>time = 0, z = 2\<rparr>\<rparr> \<lparr>axes = \<lparr>time = 1, z = 2\<rparr>\<rparr>"
proof -
  have g: "fst (generate_events 2 0 [[0, 1, 2]]) =
     [\<lparr>axes = \<lparr>time = 0, z = 0\<rparr>\<rparr>, \<lparr>axes = \<lparr>time = 0, z = 1\<rparr>\<rparr>, \<lparr>axes = \<lparr>time = 0, z = 2\<rparr>\<rparr>,
      \<lparr>axes = \<lparr>time = 1, z = 2\<rparr>\<rparr>, \<lparr>axes = \<lparr>time = 1, z = 1\<rparr>\<rparr>, \<lparr>axes = \<lparr>time = 1, z = 0\<rparr>\<rparr>]"
    by (simp add: generate_events_def list_copy_def list_reverse_def range_py_def upt_rec)
  have r: "[[0, 1, 2]] ! 0 = range_py 3"
    by (simp add: range_py_def upt_rec)
  show ?thesis using boustrophedon [of 3 0 "[[0, 1, 2]]" 2 2] r g by simp
qed

section \<open>The position sequence\<close>

subsection \<open>Closed form of the upload\<close>

lemma add_all_eq: "add_all acc xs = acc @ xs"
  by (induction xs arbitrary: acc) simp_all

lemma np_arange_Inr:
  "step \<noteq> 0 \<Longrightarrow> np_arange a b step = Inr (ramp a step (nat \<lceil>(b - a) / step\<rceil>))"
  by (simp add: np_arange_def truediv_def ramp_def)

lemma np_arange_zero: "np_arange a b 0 = Inl ZeroDivisionError"
  by (simp add: np_arange_def truediv_def)

lemma upload_zero: "upload_piezo_sequence c s m 0 rel = Inl ZeroDivisionError"
  by (simp add: upload_piezo_sequence_def np_arange_zero get_focus_device_def)

lemma upload_absolute:
  "st \<noteq> 0 \<Longrightarrow>
   upload_piezo_sequence c s m st False =
     Inr (sequenced (snd (get_focus_device c)) (focus_device c) (triangle s m st), 0,
          triangle s m st)"
  by (simp add: upload_piezo_sequence_def np_arange_Inr get_focus_device_def np_hstack_def
      add_all_eq sequenced_def triangle_def Let_def)

lemma upload_relative:
  "st \<noteq> 0 \<Longrightarrow>
   upload_piezo_sequence c s m st True =
     Inr (sequenced (snd (get_position (snd (get_focus_device c)) (focus_device c)))
            (focus_device c) (map (\<lambda>x. x + position c (focus_device c)) (triangle s m st)),
          position c (focus_device c),
          map (\<lambda>x. x + position c (focus_device c)) (triangle s m st))"
  by (simp add: upload_piezo_sequence_def np_arange_Inr get_focus_device_def np_hstack_def
      add_all_eq sequenced_def triangle_def get_position_def Let_def)

lemma triangle_notebook: "triangle (- (5 / 2)) (5 / 2) (1 / 4) =
   [- (5 / 2), - (9 / 4), - 2, - (7 / 4), - (3 / 2), - (5 / 4), - 1,
      - (3 / 4), - (1 / 2), - (1 / 4), 0, 1 / 4, 1 / 2, 3 / 4, 1, 5 / 4,
      3 / 2, 7 / 4, 2, 9 / 4, 5 / 2] @
   [5 / 2, 9 / 4, 2, 7 / 4, 3 / 2, 5 / 4, 1, 3 / 4, 1 / 2, 1 / 4, 0,
      - (1 / 4), - (1 / 2), - (3 / 4), - 1, - (5 / 4), - (3 / 2), - (7 / 4),
      - 2, - (9 / 4), - (5 / 2)]"
  by (simp add: triangle_def ramp_def upt_rec)

lemma triangle_small: "triangle 0 1 1 = [0, 1, 1, 0]"
  by (simp add: triangle_def ramp_def upt_rec)

subsection \<open>The notebook's sequence\<close>

text \<open>
  Claim C1, as the code has it. For \<^verbatim>\<open>start_end_pos = -2.5\<close>, \<^verbatim>\<open>mid_pos = 2.5\<close>,
  \<^verbatim>\<open>step_size = 0.25\<close> the ascending run has the 21 values from -2.5 to 2.5, the
  descending run has 21 values as well, from 2.5 (not 2.25) down to -2.5, and the
  sequence has 42 values, twice \<^verbatim>\<open>num_z_positions = 21\<close>.
\<close>

theorem notebook_sequence:
  "np_arange (- (5 / 2)) (5 / 2 + 1 / 4) (1 / 4) =
     Inr [- (5 / 2), - (9 / 4), - 2, - (7 / 4), - (3 / 2), - (5 / 4), - 1,
      - (3 / 4), - (1 / 2), - (1 / 4), 0, 1 / 4, 1 / 2, 3 / 4, 1, 5 / 4,
      3 / 2, 7 / 4, 2, 9 / 4, 5 / 2] \<and>
   np_arange (5 / 2) (- (5 / 2) - 1 / 4) (- (1 / 4)) =
     Inr [5 / 2, 9 / 4, 2, 7 / 4, 3 / 2, 5 / 4, 1, 3 / 4, 1 / 2, 1 / 4, 0,
      - (1 / 4), - (1 / 2), - (3 / 4), - 1, - (5 / 4), - (3 / 2), - (7 / 4),
      - 2, - (9 / 4), - (5 / 2)] \<and>
   sequence_of (upload_piezo_sequence c (- (5 / 2)) (5 / 2) (1 / 4) False) =
   [- (5 / 2), - (9 / 4), - 2, - (7 / 4), - (3 / 2), - (5 / 4), - 1,
      - (3 / 4), - (1 / 2), - (1 / 4), 0, 1 / 4, 1 / 2, 3 / 4, 1, 5 / 4,
      3 / 2, 7 / 4, 2, 9 / 4, 5 / 2] @
   [5 / 2, 9 / 4, 2, 7 / 4, 3 / 2, 5 / 4, 1, 3 / 4, 1 / 2, 1 / 4, 0,
      - (1 / 4), - (1 / 2), - (3 / 4), - 1, - (5 / 4), - (3 / 2), - (7 / 4),
      - 2, - (9 / 4), - (5 / 2)] \<and>
   length (sequence_of (upload_piezo_sequence c (- (5 / 2)) (5 / 2) (1 / 4) False)) = 42 \<and>
   initial_num_z_positions (- (5 / 2)) (5 / 2) (1 / 4) = Inr 21"
proof (intro conjI)
  show "np_arange (- (5 / 2)) (5 / 2 + 1 / 4) (1 / 4) =
     Inr [- (5 / 2), - (9 / 4), - 2, - (7 / 4), - (3 / 2), - (5 / 4), - 1,
      - (3 / 4), - (1 / 2), - (1 / 4), 0, 1 / 4, 1 / 2, 3 / 4, 1, 5 / 4,
      3 / 2, 7 / 4, 2, 9 / 4, 5 / 2]"
    by (simp add: np_arange_def truediv_def upt_rec)
  show "np_arange (5 / 2) (- (5 / 2) - 1 / 4) (- (1 / 4)) =
     Inr [5 / 2, 9 / 4, 2, 7 / 4, 3 / 2, 5 / 4, 1, 3 / 4, 1 / 2, 1 / 4, 0,
      - (1 / 4), - (1 / 2), - (3 / 4), - 1, - (5 / 4), - (3 / 2), - (7 / 4),
      - 2, - (9 / 4), - (5 / 2)]"
    by (simp add: np_arange_def truediv_def upt_rec)
  show "sequence_of (upload_piezo_sequence c (- (5 / 2)) (5 / 2) (1 / 4) False) =
   [- (5 / 2), - (9 / 4), - 2, - (7 / 4), - (3 / 2), - (5 / 4), - 1,
      - (3 / 4), - (1 / 2), - (1 / 4), 0, 1 / 4, 1 / 2, 3 / 4, 1, 5 / 4,
      3 / 2, 7 / 4, 2, 9 / 4, 5 / 2] @
   [5 / 2, 9 / 4, 2, 7 / 4, 3 / 2, 5 / 4, 1, 3 / 4, 1 / 2, 1 / 4, 0,
      - (1 / 4), - (1 / 2), - (3 / 4), - 1, - (5 / 4), - (3 / 2), - (7 / 4),
      - 2, - (9 / 4), - (5 / 2)]"
    by (simp add: upload_absolute sequence_of_def triangle_notebook)
  show "length (sequence_of (upload_piezo_sequence c (- (5 / 2)) (5 / 2) (1 / 4) False)) = 42"
    by (simp add: upload_absolute sequence_of_def triangle_notebook)
  show "initial_num_z_positions (- (5 / 2)) (5 / 2) (1 / 4) = Inr 21"
    by (simp add: initial_num_z_positions_def truediv_def int_py_def)
qed

text \<open>
  Claim C1 as stated (a descending run of 20 values from 2.25, 41 values in all, equal to
  \<^verbatim>\<open>num_z_positions\<close>) does not hold of the code.
\<close>

theorem notebook_sequence_counterexample:
  "\<not> (take 21 (sequence_of (upload_piezo_sequence idle_core (- (5 / 2)) (5 / 2) (1 / 4) False)) =
        [- (5 / 2), - (9 / 4), - 2, - (7 / 4), - (3 / 2), - (5 / 4), - 1,
         - (3 / 4), - (1 / 2), - (1 / 4), 0, 1 / 4, 1 / 2, 3 / 4, 1, 5 / 4,
         3 / 2, 7 / 4, 2, 9 / 4, 5 / 2] \<and>
      drop 21 (sequence_of (upload_piezo_sequence idle_core (- (5 / 2)) (5 / 2) (1 / 4) False)) =
        [9 / 4, 2, 7 / 4, 3 / 2, 5 / 4, 1, 3 / 4, 1 / 2, 1 / 4, 0,
         - (1 / 4), - (1 / 2), - (3 / 4), - 1, - (5 / 4), - (3 / 2), - (7 / 4),
         - 2, - (9 / 4), - (5 / 2)] \<and>
      length (sequence_of (upload_piezo_sequence idle_core (- (5 / 2)) (5 / 2) (1 / 4) False)) = 41 \<and>
      initial_num_z_positions (- (5 / 2)) (5 / 2) (1 / 4) = Inr 41)"
  by (simp add: upload_absolute sequence_of_def triangle_notebook)


subsection \<open>The exact arithmetic as an instance\<close>

lemma np_arange_with_exact: "np_arange_with exact s e st = np_arange s e st"
  by (simp add: np_arange_with_def np_arange_def exact_def split: sum.splits)

lemma upload_with_exact:
  "upload_piezo_sequence_with exact c s m st rel = upload_piezo_sequence c s m st rel"
proof -
  have a: "fadd exact = (\<lambda>x y. x + y)" "fsub exact = (\<lambda>x y. x - y)" "fneg exact = (\<lambda>x. - x)"
    "float_of_int exact = of_int"
    by (simp_all add: exact_def)
  show ?thesis
    unfolding upload_piezo_sequence_with_def upload_piezo_sequence_def np_arange_with_exact a
      of_int_0
    by (rule refl)
qed

lemma initial_with_exact:
  "initial_num_z_positions_with exact s m st = initial_num_z_positions s m st"
  by (simp add: initial_num_z_positions_with_def initial_num_z_positions_def exact_def
      split: sum.splits)

lemma notebook_with_exact: "notebook_with exact acquire p c = notebook acquire p c"
proof -
  have a: "ceil_div exact =
      (\<lambda>a b. case truediv (of_int a) (of_int b) of Inl e \<Rightarrow> Inl e | Inr r \<Rightarrow> Inr \<lceil>r\<rceil>)"
    by (simp add: exact_def)
  show ?thesis
    unfolding notebook_with_def notebook_def upload_with_exact initial_with_exact a
    by (simp split: sum.splits prod.splits)
qed

subsection \<open>The two runs, for any arithmetic\<close>




text \<open>
  The rounding model at three inputs where rounding shows: the double written \<^verbatim>\<open>0.1\<close>,
  \<^verbatim>\<open>int(abs(1.0 - 0.0) / 0.1 + 1)\<close>, which is 11, and \<^verbatim>\<open>np.arange(0.0, 2.1 + 0.7, 0.7)\<close>,
  which has four values and ends just below \<^verbatim>\<open>2.1\<close>.
\<close>

lemma binary64_values:
  "rnd (1 / 10) = 3602879701896397 / 36028797018963968"
  "initial_num_z_positions_with binary64 0 1 (rnd (1 / 10)) = Inr 11"
  "np_arange_with binary64 0 (fadd binary64 (rnd (21 / 10)) (rnd (7 / 10))) (rnd (7 / 10)) =
     Inr [0, 3152519739159347 / 4503599627370496, 3152519739159347 / 2251799813685248,
          1182194902184755 / 562949953421312]"
  "1182194902184755 / 562949953421312 < rnd (21 / 10)"
  by code_simp+







subsection \<open>Relative mode\<close>

text \<open>
  Claim C6. For all arguments, the call with \<^verbatim>\<open>relative=True\<close> raises the error of the call
  with \<^verbatim>\<open>relative=False\<close>, or returns its sequence with the position that
  \<^verbatim>\<open>get_position\<close> reports for the focus stage added to every element, and that position
  as \<^verbatim>\<open>z_pos\<close>.
\<close>

theorem relative_is_shifted:
  "outcome (upload_piezo_sequence c s m st True) =
     (case outcome (upload_piezo_sequence c s m st False) of
        Inl e \<Rightarrow> Inl e
      | Inr (z0, ps) \<Rightarrow>
          Inr (fst (get_position (snd (get_focus_device c)) (fst (get_focus_device c))),
               map (\<lambda>x. x + fst (get_position (snd (get_focus_device c)) (fst (get_focus_device c)))) ps))"
proof (cases "st = 0")
  case True
  then show ?thesis by (simp add: upload_zero outcome_def)
next
  case False
  then show ?thesis
    by (simp add: upload_absolute upload_relative outcome_def get_position_def get_focus_device_def)
qed

subsection \<open>Absolute mode\<close>

lemma position_sequenced: "position (sequenced c dev ps) = position c"
  by (simp add: sequenced_def set_property_def load_stage_sequence_def)

lemma calls_sequenced:
  "calls (sequenced c dev ps) =
     calls c @ [Set_property dev ''UseSequence'' (PStr ''Yes''),
                Set_property dev ''UseFastSequence'' (PStr ''No''),
                Load_stage_sequence dev ps,
                Set_property dev ''UseFastSequence'' (PStr ''Armed'')]"
  by (simp add: sequenced_def set_property_def load_stage_sequence_def)

lemma notebook_absolute:
  assumes "relative p = False" and "notebook acquire p c0 = Inr v"
  shows "nb_z_pos v = 0 \<and> position (nb_mmc v) (focus_device c0) = 0"
proof (cases "step_size p = 0")
  case True
  then show ?thesis using assms(2)
    by (simp add: notebook_def initial_num_z_positions_def truediv_def)
next
  case False
  then show ?thesis using assms
    by (auto simp: notebook_def Let_def upload_absolute set_position_def get_focus_device_def
        set_exposure_def set_roi_def set_property_def
        split: sum.splits prod.splits)
qed

text \<open>
  Claim C10. With \<^verbatim>\<open>relative=False\<close>, \<^verbatim>\<open>upload_piezo_sequence\<close> returns 0 as \<^verbatim>\<open>z_pos\<close> and
  makes five calls on the core, none of them \<^verbatim>\<open>get_position\<close>; and a run of the notebook
  that completes ends with the focus stage set to position 0, whatever its position
  before the run and whatever the acquisition engine did.
\<close>

theorem absolute_mode_z_pos_zero:
  "(upload_piezo_sequence c s m st False = Inr (c', zp, ps) \<longrightarrow>
      zp = 0 \<and> position c' = position c \<and>
      calls c' = calls c @
        [Get_focus_device,
         Set_property (focus_device c) ''UseSequence'' (PStr ''Yes''),
         Set_property (focus_device c) ''UseFastSequence'' (PStr ''No''),
         Load_stage_sequence (focus_device c) ps,
         Set_property (focus_device c) ''UseFastSequence'' (PStr ''Armed'')]) \<and>
   (relative p = False \<and> notebook acquire p c0 = Inr v \<longrightarrow>
      nb_z_pos v = 0 \<and> position (nb_mmc v) (focus_device c0) = 0)"
proof (intro conjI impI)
  assume u: "upload_piezo_sequence c s m st False = Inr (c', zp, ps)"
  then have nz: "st \<noteq> 0" by (auto simp: upload_zero)
  from u show "zp = 0" by (simp add: upload_absolute [OF nz])
  from u show "position c' = position c"
    by (auto simp: upload_absolute [OF nz] position_sequenced get_focus_device_def)
  from u show "calls c' = calls c @
        [Get_focus_device,
         Set_property (focus_device c) ''UseSequence'' (PStr ''Yes''),
         Set_property (focus_device c) ''UseFastSequence'' (PStr ''No''),
         Load_stage_sequence (focus_device c) ps,
         Set_property (focus_device c) ''UseFastSequence'' (PStr ''Armed'')]"
    by (auto simp: upload_absolute [OF nz] calls_sequenced get_focus_device_def)
next
  assume "relative p = False \<and> notebook acquire p c0 = Inr v"
  then show "nb_z_pos v = 0" using notebook_absolute by blast
next
  assume "relative p = False \<and> notebook acquire p c0 = Inr v"
  then show "position (nb_mmc v) (focus_device c0) = 0" using notebook_absolute by blast
qed


theorem absolute_mode_z_pos_zero_witness:
  "upload_piezo_sequence idle_core 0 1 1 False =
     Inr (sequenced (snd (get_focus_device idle_core)) ''Z'' [0, 1, 1, 0], 0, [0, 1, 1, 0]) \<and>
   calls (sequenced (snd (get_focus_device idle_core)) ''Z'' [0, 1, 1, 0]) =
     [Get_focus_device,
      Set_property ''Z'' ''UseSequence'' (PStr ''Yes''),
      Set_property ''Z'' ''UseFastSequence'' (PStr ''No''),
      Load_stage_sequence ''Z'' [0, 1, 1, 0],
      Set_property ''Z'' ''UseFastSequence'' (PStr ''Armed'')] \<and>
   relative (notebook_params\<lparr>relative := False\<rparr>) = False \<and>
   notebook acquire_idle (notebook_params\<lparr>relative := False\<rparr>) idle_core =
     Inr (projr (notebook acquire_idle (notebook_params\<lparr>relative := False\<rparr>) idle_core)) \<and>
   position idle_core ''Z'' = 7 \<and>
   nb_z_pos (projr (notebook acquire_idle (notebook_params\<lparr>relative := False\<rparr>) idle_core)) = 0 \<and>
   position (nb_mmc (projr (notebook acquire_idle (notebook_params\<lparr>relative := False\<rparr>) idle_core)))
     ''Z'' = 0"
proof -
  have fd: "focus_device idle_core = ''Z''" and ps: "position idle_core ''Z'' = 7"
    and cs: "calls idle_core = []"
    by (simp_all add: idle_core_def)
  have u: "upload_piezo_sequence idle_core 0 1 1 False =
     Inr (sequenced (snd (get_focus_device idle_core)) ''Z'' [0, 1, 1, 0], 0, [0, 1, 1, 0])"
    by (simp add: upload_absolute triangle_small fd)
  have "\<not> isl (notebook acquire_idle (notebook_params\<lparr>relative := False\<rparr>) idle_core)"
    by (simp add: notebook_def notebook_params_def initial_num_z_positions_def truediv_def
        int_py_def list_new_def Let_def upload_absolute triangle_notebook first_pos_def
        split: prod.splits)
  then have nb: "notebook acquire_idle (notebook_params\<lparr>relative := False\<rparr>) idle_core =
     Inr (projr (notebook acquire_idle (notebook_params\<lparr>relative := False\<rparr>) idle_core))"
    by simp
  show ?thesis
    using absolute_mode_z_pos_zero [of idle_core 0 1 1
        "sequenced (snd (get_focus_device idle_core)) ''Z'' [0, 1, 1, 0]" 0 "[0, 1, 1, 0]"
        "notebook_params\<lparr>relative := False\<rparr>" acquire_idle idle_core
        "projr (notebook acquire_idle (notebook_params\<lparr>relative := False\<rparr>) idle_core)"]
      u nb fd ps cs
    by simp
qed

section \<open>The z indices and the uploaded sequence\<close>

lemma z_sweeps: "e \<in> set (sweeps ts js) \<Longrightarrow> z (axes e) \<in> set js"
proof (induction ts arbitrary: js)
  case Nil
  then show ?case by simp
next
  case (Cons i ts)
  from Cons.prems consider "e \<in> set (map (\<lambda>j. \<lparr>axes = \<lparr>time = i, z = j\<rparr>\<rparr>) js)"
    | "e \<in> set (sweeps ts (rev js))"
    by auto
  then show ?case
  proof cases
    case 1
    then show ?thesis by auto
  next
    case 2
    then show ?thesis using Cons.IH [of "rev js"] by simp
  qed
qed

lemma upload_with_stage:
  assumes "upload_piezo_sequence_with A c s m st rel = Inr (c', zp, ps)"
  shows "stage_sequence c' (focus_device c) = ps"
  using assms
  by (auto simp: upload_piezo_sequence_with_def Let_def add_all_eq get_focus_device_def
      get_position_def set_property_def load_stage_sequence_def
      split: sum.splits prod.splits if_splits)

lemma focus_device_set_up:
  "focus_device (snd (get_focus_device (set_property (set_roi (set_exposure c e) r) d n x))) =
     focus_device c"
  by (simp add: get_focus_device_def set_property_def set_roi_def set_exposure_def
      split: prod.splits)

lemma notebook_with_Inr:
  assumes "notebook_with A acquire p c = Inr v"
  shows "\<exists>n c2.
     initial_num_z_positions_with A (start_end_pos p) (mid_pos p) (step_size p) = Inr n \<and>
     upload_piezo_sequence_with A
       (snd (get_focus_device
          (set_property (set_roi (set_exposure c (exposure_time p)) (ROI p))
             ''Camera'' ''Framerate'' (PInt (framerate p)))))
       (start_end_pos p) (mid_pos p) (step_size p) (relative p) =
       Inr (c2, nb_z_pos v, nb_pos_sequence v) \<and>
     z_indices v = range_py n \<and>
     nb_events v = sweeps (range_py (nb_num_time_points v)) (range_py n) \<and>
     nb_num_z_positions v = int (length (nb_pos_sequence v))"
  using assms
  by (auto simp: notebook_with_def Let_def list_new_def generate_events_eq z_indices_def
      split: sum.splits prod.splits)

lemma notebook_run_Inr: "notebook acquire_idle notebook_params idle_core = Inr (projr notebook_run)"
proof -
  have "\<not> isl (notebook acquire_idle notebook_params idle_core)"
    by (simp add: notebook_def notebook_params_def initial_num_z_positions_def truediv_def
        int_py_def list_new_def Let_def upload_relative triangle_notebook first_pos_def
        split: prod.splits)
  then show ?thesis by (simp add: notebook_run_def)
qed

lemma initial_notebook:
  "initial_num_z_positions (start_end_pos notebook_params) (mid_pos notebook_params)
     (step_size notebook_params) = Inr 21"
  by (simp add: notebook_params_def initial_num_z_positions_def truediv_def int_py_def)

lemma upload_length_triangle:
  assumes "st \<noteq> 0" and "upload_piezo_sequence c s m st rel = Inr (c', zp, ps)"
  shows "length ps = length (triangle s m st)"
  using assms(2)
  by (cases rel) (auto simp: upload_absolute [OF assms(1)] upload_relative [OF assms(1)])

lemma notebook_run_facts:
  "z_indices (projr notebook_run) = range_py 21"
  "length (nb_pos_sequence (projr notebook_run)) = 42"
  "nb_num_z_positions (projr notebook_run) = 42"
proof -
  have w: "notebook_with exact acquire_idle notebook_params idle_core = Inr (projr notebook_run)"
    by (simp only: notebook_with_exact notebook_run_Inr)
  from notebook_with_Inr [OF w] obtain n c2 where
    n: "initial_num_z_positions_with exact (start_end_pos notebook_params)
          (mid_pos notebook_params) (step_size notebook_params) = Inr n"
    and u: "upload_piezo_sequence_with exact
       (snd (get_focus_device
          (set_property (set_roi (set_exposure idle_core (exposure_time notebook_params))
             (ROI notebook_params)) ''Camera'' ''Framerate'' (PInt (framerate notebook_params)))))
       (start_end_pos notebook_params) (mid_pos notebook_params) (step_size notebook_params)
       (relative notebook_params) =
       Inr (c2, nb_z_pos (projr notebook_run), nb_pos_sequence (projr notebook_run))"
    and zi: "z_indices (projr notebook_run) = range_py n"
    and nz: "nb_num_z_positions (projr notebook_run) =
       int (length (nb_pos_sequence (projr notebook_run)))"
    by blast
  have "n = 21" using n by (simp add: initial_with_exact initial_notebook)
  then show "z_indices (projr notebook_run) = range_py 21" using zi by simp
  have "(1 / 4 :: rat) \<noteq> 0" by simp
  from upload_length_triangle [OF this] u
  show len: "length (nb_pos_sequence (projr notebook_run)) = 42"
    by (simp add: upload_with_exact notebook_params_def triangle_notebook)
  then show "nb_num_z_positions (projr notebook_run) = 42" using nz by simp
qed

text \<open>
  Claim C3, as the code has it. Whatever the float arithmetic, after a run that
  completes the list \<^verbatim>\<open>z_idx\<close> is \<^verbatim>\<open>range(n)\<close> for the first value \<open>n\<close> of
  \<^verbatim>\<open>num_z_positions\<close>; the events are generated from that list and the z coordinate of
  every event is in \<open>0..n-1\<close>; the sequence that \<^verbatim>\<open>upload_piezo_sequence\<close> returned is the
  one loaded into the focus stage, and \<^verbatim>\<open>num_z_positions\<close> ends as its length. In the
  notebook's own run \<open>n\<close> is 21 and 42 positions are uploaded: every z of an event
  addresses an uploaded position, and the positions 21 to 41 are addressed by no z.
\<close>

theorem z_idx_range:
  "(notebook_with A acquire p c = Inr v \<longrightarrow>
      (\<exists>n c1 c2.
         initial_num_z_positions_with A (start_end_pos p) (mid_pos p) (step_size p) = Inr n \<and>
         z_indices v = range_py n \<and>
         nb_events v = fst (generate_events (nb_num_time_points v) 0 [range_py n]) \<and>
         (\<forall>e \<in> set (nb_events v). 0 \<le> z (axes e) \<and> z (axes e) < n) \<and>
         upload_piezo_sequence_with A c1 (start_end_pos p) (mid_pos p) (step_size p)
           (relative p) = Inr (c2, nb_z_pos v, nb_pos_sequence v) \<and>
         stage_sequence c2 (focus_device c) = nb_pos_sequence v \<and>
         nb_num_z_positions v = int (length (nb_pos_sequence v)))) \<and>
   (notebook acquire_idle notebook_params idle_core = Inr (projr notebook_run) \<and>
    initial_num_z_positions (start_end_pos notebook_params) (mid_pos notebook_params)
      (step_size notebook_params) = Inr 21 \<and>
    z_indices (projr notebook_run) = range_py 21 \<and>
    length (nb_pos_sequence (projr notebook_run)) = 42 \<and>
    nb_num_z_positions (projr notebook_run) = 42)"
proof (intro conjI impI)
  assume run: "notebook_with A acquire p c = Inr v"
  let ?c1 = "snd (get_focus_device
          (set_property (set_roi (set_exposure c (exposure_time p)) (ROI p))
             ''Camera'' ''Framerate'' (PInt (framerate p))))"
  from notebook_with_Inr [OF run] obtain n c2 where
    n: "initial_num_z_positions_with A (start_end_pos p) (mid_pos p) (step_size p) = Inr n"
    and u: "upload_piezo_sequence_with A ?c1 (start_end_pos p) (mid_pos p) (step_size p)
       (relative p) = Inr (c2, nb_z_pos v, nb_pos_sequence v)"
    and zi: "z_indices v = range_py n"
    and ev: "nb_events v = sweeps (range_py (nb_num_time_points v)) (range_py n)"
    and nz: "nb_num_z_positions v = int (length (nb_pos_sequence v))"
    by blast
  have gen: "nb_events v = fst (generate_events (nb_num_time_points v) 0 [range_py n])"
    by (simp add: ev generate_events_eq)
  have st: "stage_sequence c2 (focus_device c) = nb_pos_sequence v"
    using upload_with_stage [OF u] by (simp add: focus_device_set_up)
  have zs: "\<forall>e \<in> set (nb_events v). 0 \<le> z (axes e) \<and> z (axes e) < n"
  proof
    fix e assume "e \<in> set (nb_events v)"
    then have "z (axes e) \<in> set (range_py n)" unfolding ev by (rule z_sweeps)
    then show "0 \<le> z (axes e) \<and> z (axes e) < n" by (auto simp: range_py_def)
  qed
  show "\<exists>n c1 c2.
         initial_num_z_positions_with A (start_end_pos p) (mid_pos p) (step_size p) = Inr n \<and>
         z_indices v = range_py n \<and>
         nb_events v = fst (generate_events (nb_num_time_points v) 0 [range_py n]) \<and>
         (\<forall>e \<in> set (nb_events v). 0 \<le> z (axes e) \<and> z (axes e) < n) \<and>
         upload_piezo_sequence_with A c1 (start_end_pos p) (mid_pos p) (step_size p)
           (relative p) = Inr (c2, nb_z_pos v, nb_pos_sequence v) \<and>
         stage_sequence c2 (focus_device c) = nb_pos_sequence v \<and>
         nb_num_z_positions v = int (length (nb_pos_sequence v))"
    using n zi gen zs u st nz by blast
qed (simp_all add: notebook_run_Inr initial_notebook notebook_run_facts)

theorem z_idx_range_witness:
  "notebook_with exact acquire_idle notebook_params idle_core = Inr (projr notebook_run) \<and>
   initial_num_z_positions_with exact (- (5 / 2)) (5 / 2) (1 / 4) = Inr 21 \<and>
   z_indices (projr notebook_run) = range_py 21 \<and>
   nb_events (projr notebook_run) =
     fst (generate_events (nb_num_time_points (projr notebook_run)) 0 [range_py 21]) \<and>
   nb_num_z_positions (projr notebook_run) = int (length (nb_pos_sequence (projr notebook_run)))"
proof -
  have w: "notebook_with exact acquire_idle notebook_params idle_core = Inr (projr notebook_run)"
    by (simp only: notebook_with_exact notebook_run_Inr)
  have i: "initial_num_z_positions_with exact (- (5 / 2)) (5 / 2) (1 / 4) = Inr 21"
    using initial_notebook by (simp add: initial_with_exact notebook_params_def)
  from z_idx_range [of exact acquire_idle notebook_params idle_core "projr notebook_run"] w
  obtain n where
    n: "initial_num_z_positions_with exact (start_end_pos notebook_params)
          (mid_pos notebook_params) (step_size notebook_params) = Inr n"
    and r: "z_indices (projr notebook_run) = range_py n"
      "nb_events (projr notebook_run) =
         fst (generate_events (nb_num_time_points (projr notebook_run)) 0 [range_py n])"
      "nb_num_z_positions (projr notebook_run) =
         int (length (nb_pos_sequence (projr notebook_run)))"
    by blast
  have "n = 21" using n i by (simp add: notebook_params_def)
  show ?thesis using w i r unfolding \<open>n = 21\<close> by simp
qed

text \<open>
  Claim C3 as stated (\<^verbatim>\<open>z_idx\<close> is \<^verbatim>\<open>range\<close> of the number of uploaded positions) does not
  hold of the code: the notebook's own run builds \<^verbatim>\<open>z_idx = range(21)\<close> and uploads 42
  positions.
\<close>

theorem z_idx_range_counterexample:
  "notebook acquire_idle notebook_params idle_core = Inr (projr notebook_run) \<and>
   z_indices (projr notebook_run) = range_py 21 \<and>
   length (nb_pos_sequence (projr notebook_run)) = 42 \<and>
   nb_num_z_positions (projr notebook_run) = 42 \<and>
   z_indices (projr notebook_run) \<noteq> range_py (int (length (nb_pos_sequence (projr notebook_run))))"
proof -
  have "length (range_py 21) \<noteq> length (range_py 42)" by (simp add: range_py_def)
  then have "range_py 21 \<noteq> range_py 42" by metis
  then show ?thesis using notebook_run_Inr notebook_run_facts by simp
qed

end
